theory Spec2Isabelle
  imports Main "HOL-Library.Sublist"
begin

section \<open>Python values, exceptions and the external library\<close>

text \<open>
  The notebook \<^verbatim>\<open>recsim/colab/RecSim_Overview.ipynb\<close> imports a library (numpy, the
  interest-evolution environment, the full Slate-Q agent, the runner library), defines
  one function, \<^verbatim>\<open>create_agent\<close>, and then configures an environment, trains an agent
  and evaluates it. Everything else is the imported library.

  Values are the Python values the notebook handles: literals, dictionaries with string
  keys (in insertion order), objects handed out by the library (opaque, of type \<open>'o\<close>),
  the function object that a \<^verbatim>\<open>def\<close> statement creates, identified by the name of
  its definition, and the module object that an \<^verbatim>\<open>import\<close> statement binds, identified
  by the name under which the library provides the module.
\<close>

datatype 'o pyval =
    NoneV
  | BoolV bool
  | IntV int
  | StrV string
  | DictV "(string \<times> 'o pyval) list"
  | ObjV 'o
  | FunV string
  | ModV string

text \<open>
  An exception is either the \<^verbatim>\<open>NameError\<close> that reading an unbound notebook variable
  raises, or an exception of the external library (opaque, of type \<open>'x\<close>).
\<close>

datatype 'x exc = NameError string | Extern 'x

text \<open>
  The external library is a parameter of the model: given the qualified name of the
  callable, the positional arguments and the keyword arguments, a call acts on the
  library's own state \<open>'w\<close> and either raises or returns a value. A callable of a
  module is known to the library by the module's name, a dot and its own name. A method
  call \<^verbatim>\<open>obj.m()\<close> is the call of \<^verbatim>\<open>m\<close> with the receiver as first positional
  argument.
\<close>

type_synonym ('o, 'w, 'x) library =
  "string \<Rightarrow> 'o pyval list \<Rightarrow> (string \<times> 'o pyval) list \<Rightarrow> 'w \<Rightarrow> ('x exc + 'o pyval) \<times> 'w"

text \<open>
  The call \<^verbatim>\<open>v.a(args, **kwargs)\<close> of an attribute of a value: of a module, the
  callable the library knows under the qualified name; of anything else, a method call.
\<close>

definition call_attr ::
  "('o, 'w, 'x) library \<Rightarrow> 'o pyval \<Rightarrow> string \<Rightarrow> 'o pyval list \<Rightarrow> (string \<times> 'o pyval) list \<Rightarrow>
     'w \<Rightarrow> ('x exc + 'o pyval) \<times> 'w" where
  "call_attr lib v a args kwargs =
     (case v of ModV m \<Rightarrow> lib (m @ ''.'' @ a) args kwargs | _ \<Rightarrow> lib a (v # args) kwargs)"

text \<open>
  The notebook's code cells, in order: the installation cell (two \<^verbatim>\<open>!pip\<close> lines and
  \<^verbatim>\<open>%load_ext\<close>: commands to the shell and to IPython, not Python statements), two
  import cells, the cell that defines \<^verbatim>\<open>create_agent\<close>, the configuration cell, the
  training cell, the evaluation cell, and the \<^verbatim>\<open>%tensorboard\<close> cell (again a command
  to IPython). The import cells
  \<^verbatim>\<open>
  import numpy as np
  import tensorflow as tf
  from recsim.environments import interest_evolution
  from recsim.agents import full_slate_q_agent
  from recsim.simulator import runner_lib
  \<close>
  bind five module names. The bindings they leave are the namespace \<open>import_bindings\<close>. The
  script modelled below is the four cells after the imports; its calls into the modules
  are made under the names the library provides them by, as the import bindings have it.
\<close>

definition import_bindings :: "string \<Rightarrow> 'o pyval option" where
  "import_bindings =
     [''np'' \<mapsto> ModV ''np'',
      ''tf'' \<mapsto> ModV ''tf'',
      ''interest_evolution'' \<mapsto> ModV ''interest_evolution'',
      ''full_slate_q_agent'' \<mapsto> ModV ''full_slate_q_agent'',
      ''runner_lib'' \<mapsto> ModV ''runner_lib'']"

text \<open>
  A dictionary keeps its keys in insertion order; storing under a key that is present
  replaces the value in place. A dictionary literal stores its items from left to right.
\<close>

fun dict_set :: "string \<Rightarrow> 'v \<Rightarrow> (string \<times> 'v) list \<Rightarrow> (string \<times> 'v) list" where
  "dict_set k v [] = [(k, v)]"
| "dict_set k v ((k', v') # d) = (if k' = k then (k, v) # d else (k', v') # dict_set k v d)"

definition dict_of_items :: "(string \<times> 'v) list \<Rightarrow> (string \<times> 'v) list" where
  "dict_of_items kvs = foldl (\<lambda>d (k, v). dict_set k v d) [] kvs"

section \<open>The agent factory\<close>

text \<open>
  An environment exposes \<^verbatim>\<open>observation_space\<close> and \<^verbatim>\<open>action_space\<close>; whatever else
  it holds is the extension part of the record.
\<close>

record 'o environment =
  observation_space :: "'o pyval"
  action_space :: "'o pyval"

text \<open>
  \<^verbatim>\<open>
  def create_agent(sess, environment, eval_mode, summary_writer=None):
    kwargs = {
        'observation_space': environment.observation_space,
        'action_space': environment.action_space,
        'summary_writer': summary_writer,
        'eval_mode': eval_mode,
    }
    return full_slate_q_agent.FullSlateQAgent(sess, **kwargs)
  \<close>
  The optional parameter is an \<open>option\<close>: \<open>None\<close> when the caller omits it, and then the
  default \<^verbatim>\<open>None\<close> of the signature is what the body sees. The keywords of the
  constructor call are the items of the dictionary \<^verbatim>\<open>kwargs\<close>.

  The body reads the notebook variable \<^verbatim>\<open>full_slate_q_agent\<close> each time it runs,
  after it has built \<^verbatim>\<open>kwargs\<close>: \<open>create_agent_in g\<close> is the function called when
  the notebook's namespace is \<open>g\<close>. It has no statement that binds a notebook variable,
  so it returns no namespace. \<open>create_agent\<close> is the function called in a namespace
  where \<^verbatim>\<open>full_slate_q_agent\<close> is bound as the import cell binds it.
\<close>

definition summary_writer_param :: "'o pyval option \<Rightarrow> 'o pyval" where
  "summary_writer_param given = (case given of None \<Rightarrow> NoneV | Some v \<Rightarrow> v)"

definition create_agent_kwargs ::
  "('o, 'm) environment_scheme \<Rightarrow> 'o pyval \<Rightarrow> 'o pyval \<Rightarrow> (string \<times> 'o pyval) list" where
  "create_agent_kwargs environment eval_mode summary_writer =
     dict_of_items
       [(''observation_space'', observation_space environment),
        (''action_space'', action_space environment),
        (''summary_writer'', summary_writer),
        (''eval_mode'', eval_mode)]"

definition create_agent_in ::
  "(string \<Rightarrow> 'o pyval option) \<Rightarrow> ('o, 'w, 'x) library \<Rightarrow> 'o pyval \<Rightarrow>
     ('o, 'm) environment_scheme \<Rightarrow> 'o pyval \<Rightarrow> 'o pyval option \<Rightarrow> 'w \<Rightarrow>
     ('x exc + 'o pyval) \<times> 'w" where
  "create_agent_in g lib sess environment eval_mode given w =
     (let summary_writer = summary_writer_param given;
          kwargs = create_agent_kwargs environment eval_mode summary_writer
      in case g ''full_slate_q_agent'' of
           None \<Rightarrow> (Inl (NameError ''full_slate_q_agent''), w)
         | Some m \<Rightarrow> call_attr lib m ''FullSlateQAgent'' [sess] kwargs w)"

definition create_agent ::
  "('o, 'w, 'x) library \<Rightarrow> 'o pyval \<Rightarrow> ('o, 'm) environment_scheme \<Rightarrow> 'o pyval \<Rightarrow>
     'o pyval option \<Rightarrow> 'w \<Rightarrow> ('x exc + 'o pyval) \<times> 'w" where
  "create_agent lib sess environment eval_mode given =
     create_agent_in import_bindings lib sess environment eval_mode given"

section \<open>The notebook script\<close>

text \<open>
  The script runs on the notebook's global namespace and on the state of the external
  library. The trace records, in order, every binding of a notebook variable and every
  call into the library with its arguments and its outcome.
\<close>

datatype ('o, 'x) event =
    Bind string "'o pyval"
  | Call string "'o pyval list" "(string \<times> 'o pyval) list" "'x exc + 'o pyval"

record ('o, 'w, 'x) state =
  globals :: "string \<Rightarrow> 'o pyval option"
  world :: 'w
  trace :: "('o, 'x) event list"

type_synonym ('a, 'o, 'w, 'x) py = "('o, 'w, 'x) state \<Rightarrow> ('x exc + 'a) \<times> ('o, 'w, 'x) state"

definition then_do :: "('a, 'o, 'w, 'x) py \<Rightarrow> ('a \<Rightarrow> ('b, 'o, 'w, 'x) py) \<Rightarrow> ('b, 'o, 'w, 'x) py" where
  "then_do m f s = (case m s of (Inl e, s') \<Rightarrow> (Inl e, s') | (Inr a, s') \<Rightarrow> f a s')"

definition const :: "'a \<Rightarrow> ('a, 'o, 'w, 'x) py" where
  "const v s = (Inr v, s)"

definition name :: "string \<Rightarrow> ('o pyval, 'o, 'w, 'x) py" where
  "name n s = (case globals s n of None \<Rightarrow> (Inl (NameError n), s) | Some v \<Rightarrow> (Inr v, s))"

fun eval_args :: "('o pyval, 'o, 'w, 'x) py list \<Rightarrow> ('o pyval list, 'o, 'w, 'x) py" where
  "eval_args [] = const []"
| "eval_args (e # es) = then_do e (\<lambda>v. then_do (eval_args es) (\<lambda>vs. const (v # vs)))"

fun eval_items ::
  "(string \<times> ('o pyval, 'o, 'w, 'x) py) list \<Rightarrow> ((string \<times> 'o pyval) list, 'o, 'w, 'x) py" where
  "eval_items [] = const []"
| "eval_items ((k, e) # kes) =
     then_do e (\<lambda>v. then_do (eval_items kes) (\<lambda>kvs. const ((k, v) # kvs)))"

definition dict_lit :: "(string \<times> ('o pyval, 'o, 'w, 'x) py) list \<Rightarrow> ('o pyval, 'o, 'w, 'x) py" where
  "dict_lit kes = then_do (eval_items kes) (\<lambda>kvs. const (DictV (dict_of_items kvs)))"

definition invoke ::
  "('o, 'w, 'x) library \<Rightarrow> string \<Rightarrow> 'o pyval list \<Rightarrow> (string \<times> 'o pyval) list \<Rightarrow>
     ('o pyval, 'o, 'w, 'x) py" where
  "invoke lib f args kwargs s =
     (case lib f args kwargs (world s) of
        (r, w') \<Rightarrow> (r, s\<lparr>world := w', trace := trace s @ [Call f args kwargs r]\<rparr>))"

definition call ::
  "('o, 'w, 'x) library \<Rightarrow> string \<Rightarrow> ('o pyval, 'o, 'w, 'x) py list \<Rightarrow>
     (string \<times> ('o pyval, 'o, 'w, 'x) py) list \<Rightarrow> ('o pyval, 'o, 'w, 'x) py" where
  "call lib f es kes =
     then_do (eval_args es) (\<lambda>args. then_do (eval_items kes) (\<lambda>kwargs. invoke lib f args kwargs))"

definition bind_global :: "string \<Rightarrow> 'o pyval \<Rightarrow> (unit, 'o, 'w, 'x) py" where
  "bind_global n v s =
     (Inr (), s\<lparr>globals := (globals s)(n \<mapsto> v), trace := trace s @ [Bind n v]\<rparr>)"

definition assign :: "string \<Rightarrow> ('o pyval, 'o, 'w, 'x) py \<Rightarrow> (unit, 'o, 'w, 'x) py" where
  "assign n e = then_do e (bind_global n)"

definition expr_stmt :: "('o pyval, 'o, 'w, 'x) py \<Rightarrow> (unit, 'o, 'w, 'x) py" where
  "expr_stmt e = then_do e (\<lambda>v. const ())"

definition def_stmt :: "string \<Rightarrow> (unit, 'o, 'w, 'x) py" where
  "def_stmt n = assign n (const (FunV n))"

fun exec :: "(unit, 'o, 'w, 'x) py list \<Rightarrow> (unit, 'o, 'w, 'x) py" where
  "exec [] = const ()"
| "exec (st # sts) = then_do st (\<lambda>u. exec sts)"

text \<open>The cell that defines \<^verbatim>\<open>create_agent\<close>.\<close>

definition cell_create_agent :: "(unit, 'o, 'w, 'x) py list" where
  "cell_create_agent = [def_stmt ''create_agent'']"

text \<open>
  \<^verbatim>\<open>
  seed = 0
  np.random.seed(seed)
  env_config = {
    'num_candidates': 10,
    'slate_size': 2,
    'resample_documents': True,
    'seed': seed,
    }
  \<close>
\<close>

definition cell_env_config :: "('o, 'w, 'x) library \<Rightarrow> (unit, 'o, 'w, 'x) py list" where
  "cell_env_config lib =
     [assign ''seed'' (const (IntV 0)),
      expr_stmt (call lib ''np.random.seed'' [name ''seed''] []),
      assign ''env_config''
        (dict_lit
           [(''num_candidates'', const (IntV 10)),
            (''slate_size'', const (IntV 2)),
            (''resample_documents'', const (BoolV True)),
            (''seed'', name ''seed'')])]"

text \<open>
  \<^verbatim>\<open>
  tmp_base_dir = '/tmp/recsim/'
  runner = runner_lib.TrainRunner(
      base_dir=tmp_base_dir,
      create_agent_fn=create_agent,
      env=interest_evolution.create_environment(env_config),
      episode_log_file="",
      max_training_steps=50,
      num_iterations=10)
  runner.run_experiment()
  \<close>
\<close>

definition cell_train :: "('o, 'w, 'x) library \<Rightarrow> (unit, 'o, 'w, 'x) py list" where
  "cell_train lib =
     [assign ''tmp_base_dir'' (const (StrV ''/tmp/recsim/'')),
      assign ''runner''
        (call lib ''runner_lib.TrainRunner'' []
           [(''base_dir'', name ''tmp_base_dir''),
            (''create_agent_fn'', name ''create_agent''),
            (''env'', call lib ''interest_evolution.create_environment'' [name ''env_config''] []),
            (''episode_log_file'', const (StrV '''')),
            (''max_training_steps'', const (IntV 50)),
            (''num_iterations'', const (IntV 10))]),
      expr_stmt (call lib ''run_experiment'' [name ''runner''] [])]"

text \<open>
  \<^verbatim>\<open>
  runner = runner_lib.EvalRunner(
      base_dir=tmp_base_dir,
      create_agent_fn=create_agent,
      env=interest_evolution.create_environment(env_config),
      max_eval_episodes=5,
      test_mode=True)
  runner.run_experiment()
  \<close>
\<close>

definition cell_eval :: "('o, 'w, 'x) library \<Rightarrow> (unit, 'o, 'w, 'x) py list" where
  "cell_eval lib =
     [assign ''runner''
        (call lib ''runner_lib.EvalRunner'' []
           [(''base_dir'', name ''tmp_base_dir''),
            (''create_agent_fn'', name ''create_agent''),
            (''env'', call lib ''interest_evolution.create_environment'' [name ''env_config''] []),
            (''max_eval_episodes'', const (IntV 5)),
            (''test_mode'', const (BoolV True))]),
      expr_stmt (call lib ''run_experiment'' [name ''runner''] [])]"

text \<open>
  The four cells after the imports run top to bottom; an exception ends the run where it
  is raised. A run starts in a namespace \<open>g\<close>, which is \<open>import_bindings\<close> or an extension of it
  when the cells above have run, and in a state \<open>w\<close> of the library.
\<close>

definition notebook :: "('o, 'w, 'x) library \<Rightarrow> (unit, 'o, 'w, 'x) py" where
  "notebook lib = exec (cell_create_agent @ cell_env_config lib @ cell_train lib @ cell_eval lib)"

definition run ::
  "('o, 'w, 'x) library \<Rightarrow> (string \<Rightarrow> 'o pyval option) \<Rightarrow> 'w \<Rightarrow>
     ('x exc + unit) \<times> ('o, 'w, 'x) state" where
  "run lib g w = notebook lib \<lparr>globals = g, world = w, trace = []\<rparr>"

section \<open>Observing a run\<close>

text \<open>The calls to one callable, in order: positional arguments, keywords, outcome.\<close>

fun calls_to ::
  "string \<Rightarrow> ('o, 'x) event list \<Rightarrow>
     ('o pyval list \<times> (string \<times> 'o pyval) list \<times> ('x exc + 'o pyval)) list" where
  "calls_to f [] = []"
| "calls_to f (Bind n v # tr) = calls_to f tr"
| "calls_to f (Call f' args kwargs r # tr) =
     (if f' = f then (args, kwargs, r) # calls_to f tr else calls_to f tr)"

text \<open>The values bound to one notebook variable, in order.\<close>

fun binds_of :: "string \<Rightarrow> ('o, 'x) event list \<Rightarrow> 'o pyval list" where
  "binds_of n [] = []"
| "binds_of n (Bind n' v # tr) = (if n' = n then v # binds_of n tr else binds_of n tr)"
| "binds_of n (Call f args kwargs r # tr) = binds_of n tr"

text \<open>What kind of step an event is, without the values involved.\<close>

datatype label = Binds string | Calls string

fun label_of :: "('o, 'x) event \<Rightarrow> label" where
  "label_of (Bind n v) = Binds n"
| "label_of (Call f args kwargs r) = Calls f"

text \<open>The exception an event raised, if it is a call that raised.\<close>

fun raised :: "('o, 'x) event \<Rightarrow> 'x exc option" where
  "raised (Bind n v) = None"
| "raised (Call f args kwargs (Inl e)) = Some e"
| "raised (Call f args kwargs (Inr v)) = None"



text \<open>A scalar is a value without parts.\<close>

fun scalar :: "'o pyval \<Rightarrow> bool" where
  "scalar NoneV = True"
| "scalar (BoolV b) = True"
| "scalar (IntV i) = True"
| "scalar (StrV s) = True"
| "scalar (DictV d) = False"
| "scalar (ObjV x) = False"
| "scalar (FunV n) = False"
| "scalar (ModV m) = False"

text \<open>
  A library wrapped so that its state carries the list of the calls made so far; the
  wrapped library behaves as the library itself.
\<close>

definition recording ::
  "('o, 'w, 'x) library \<Rightarrow>
     ('o, 'w \<times> (string \<times> 'o pyval list \<times> (string \<times> 'o pyval) list) list, 'x) library" where
  "recording lib f args kwargs = (\<lambda>(w, calls).
     case lib f args kwargs w of (r, w') \<Rightarrow> (r, (w', calls @ [(f, args, kwargs)])))"

text \<open>
  Three libraries to run the notebook on: one whose every call returns a new object,
  numbered by the count of calls so far, one whose call number \<open>n\<close> raises, and one
  whose every call returns one and the same object.
\<close>

definition counting_library :: "(nat, nat, nat) library" where
  "counting_library f args kwargs w = (Inr (ObjV w), Suc w)"

definition failing_library :: "nat \<Rightarrow> (nat, nat, nat) library" where
  "failing_library n f args kwargs w =
     (if w = n then (Inl (Extern w), Suc w) else (Inr (ObjV w), Suc w))"


section \<open>Running the script step by step\<close>

text \<open>
  The laws of sequencing, and what each elementary step does to the state it runs on.
\<close>

lemma then_do_assoc: "then_do (then_do m f) h = then_do m (\<lambda>a. then_do (f a) h)"
  by (rule ext) (simp add: then_do_def split: prod.splits sum.splits)

lemma then_do_const: "then_do (const v) f = f v"
  by (rule ext) (simp add: then_do_def const_def)

lemma then_do_name:
  "then_do (name n) f s =
     (case globals s n of None \<Rightarrow> (Inl (NameError n), s) | Some v \<Rightarrow> f v s)"
  by (simp add: then_do_def name_def split: option.splits)

lemma then_do_invoke:
  "then_do (invoke lib f args kwargs) h s =
     (case lib f args kwargs (world s) of
        (Inl e, w') \<Rightarrow> (Inl e, s\<lparr>world := w', trace := trace s @ [Call f args kwargs (Inl e)]\<rparr>)
      | (Inr v, w') \<Rightarrow> h v (s\<lparr>world := w', trace := trace s @ [Call f args kwargs (Inr v)]\<rparr>))"
  by (simp add: then_do_def invoke_def split: prod.splits sum.splits)

lemma then_do_bind_global:
  "then_do (bind_global n v) h s =
     h () (s\<lparr>globals := (globals s)(n \<mapsto> v), trace := trace s @ [Bind n v]\<rparr>)"
  by (simp add: then_do_def bind_global_def)

lemma const_apply: "const v s = (Inr v, s)"
  by (simp add: const_def)

text \<open>
  Unfolding the cells with the laws of sequencing gives the script as one sequence of
  elementary steps: reads of notebook variables, bindings and library calls.
\<close>

lemmas flatten = notebook_def cell_create_agent_def cell_env_config_def cell_train_def
  cell_eval_def def_stmt_def assign_def expr_stmt_def call_def dict_lit_def
  then_do_assoc then_do_const append.simps exec.simps eval_args.simps eval_items.simps

lemmas symbex = then_do_name then_do_invoke then_do_bind_global const_apply

lemma notebook_steps:
  "notebook lib =
     then_do (bind_global ''create_agent'' (FunV ''create_agent'')) (\<lambda>u.
     then_do (bind_global ''seed'' (IntV 0)) (\<lambda>u.
     then_do (name ''seed'') (\<lambda>seed.
     then_do (invoke lib ''np.random.seed'' [seed] []) (\<lambda>r.
     then_do (name ''seed'') (\<lambda>seed.
     then_do (bind_global ''env_config''
       (DictV (dict_of_items
          [(''num_candidates'', IntV 10), (''slate_size'', IntV 2),
           (''resample_documents'', BoolV True), (''seed'', seed)]))) (\<lambda>u.
     then_do (bind_global ''tmp_base_dir'' (StrV ''/tmp/recsim/'')) (\<lambda>u.
     then_do (name ''tmp_base_dir'') (\<lambda>base_dir.
     then_do (name ''create_agent'') (\<lambda>create_agent_fn.
     then_do (name ''env_config'') (\<lambda>env_config.
     then_do (invoke lib ''interest_evolution.create_environment'' [env_config] []) (\<lambda>env.
     then_do (invoke lib ''runner_lib.TrainRunner'' []
       [(''base_dir'', base_dir), (''create_agent_fn'', create_agent_fn), (''env'', env),
        (''episode_log_file'', StrV ''''), (''max_training_steps'', IntV 50),
        (''num_iterations'', IntV 10)]) (\<lambda>runner.
     then_do (bind_global ''runner'' runner) (\<lambda>u.
     then_do (name ''runner'') (\<lambda>runner.
     then_do (invoke lib ''run_experiment'' [runner] []) (\<lambda>r.
     then_do (name ''tmp_base_dir'') (\<lambda>base_dir.
     then_do (name ''create_agent'') (\<lambda>create_agent_fn.
     then_do (name ''env_config'') (\<lambda>env_config.
     then_do (invoke lib ''interest_evolution.create_environment'' [env_config] []) (\<lambda>env.
     then_do (invoke lib ''runner_lib.EvalRunner'' []
       [(''base_dir'', base_dir), (''create_agent_fn'', create_agent_fn), (''env'', env),
        (''max_eval_episodes'', IntV 5), (''test_mode'', BoolV True)]) (\<lambda>runner.
     then_do (bind_global ''runner'' runner) (\<lambda>u.
     then_do (name ''runner'') (\<lambda>runner.
     then_do (invoke lib ''run_experiment'' [runner] []) (\<lambda>r.
     const ())))))))))))))))))))))))"
  by (simp only: flatten)

section \<open>The agent factory: properties\<close>

lemma create_agent_unfold:
  "create_agent lib sess environment eval_mode given =
     (let summary_writer = summary_writer_param given;
          kwargs = create_agent_kwargs environment eval_mode summary_writer
      in lib ''full_slate_q_agent.FullSlateQAgent'' [sess] kwargs)"
  by (rule ext) (simp add: create_agent_def create_agent_in_def import_bindings_def call_attr_def)

lemma create_agent_kwargs_items:
  "create_agent_kwargs environment eval_mode summary_writer =
     [(''observation_space'', observation_space environment),
      (''action_space'', action_space environment),
      (''summary_writer'', summary_writer),
      (''eval_mode'', eval_mode)]"
  by (simp add: create_agent_kwargs_def dict_of_items_def)

text \<open>
  C2. Whatever the session, the environment, the evaluation flag and the summary writer,
  \<^verbatim>\<open>create_agent\<close> is the call of the agent constructor with the session as only
  positional argument and exactly the four keywords \<^verbatim>\<open>observation_space\<close>,
  \<^verbatim>\<open>action_space\<close>, \<^verbatim>\<open>summary_writer\<close> and \<^verbatim>\<open>eval_mode\<close>, bound to the
  environment's two attributes and to its own two arguments; its result and its effect on
  the library are those of the constructor. With the summary writer omitted the
  constructor receives \<^verbatim>\<open>summary_writer = None\<close>.
\<close>

theorem create_agent_passes_keywords:
  "create_agent lib sess environment eval_mode given w =
     lib ''full_slate_q_agent.FullSlateQAgent'' [sess]
       [(''observation_space'', observation_space environment),
        (''action_space'', action_space environment),
        (''summary_writer'', case given of None \<Rightarrow> NoneV | Some summary_writer \<Rightarrow> summary_writer),
        (''eval_mode'', eval_mode)] w
   \<and> create_agent lib sess environment eval_mode None w =
     lib ''full_slate_q_agent.FullSlateQAgent'' [sess]
       [(''observation_space'', observation_space environment),
        (''action_space'', action_space environment),
        (''summary_writer'', NoneV),
        (''eval_mode'', eval_mode)] w"
  by (simp add: create_agent_unfold create_agent_kwargs_items summary_writer_param_def)

text \<open>
  C7, as the code has it. The body of \<^verbatim>\<open>create_agent\<close> reads the notebook variable
  \<^verbatim>\<open>full_slate_q_agent\<close> whenever it runs, so its behaviour does not depend on its four
  parameters alone. With the same four arguments, on the same library in the same state:
  it calls the agent constructor of the module that the import cell bound; after the
  variable has been rebound to another module it calls that module's constructor; and
  where the variable is unbound it raises \<^verbatim>\<open>NameError\<close> and calls nothing.
\<close>

theorem create_agent_reads_module_binding:
  "create_agent_in import_bindings (recording counting_library) (ObjV 0)
       \<lparr>observation_space = ObjV 1, action_space = ObjV 2\<rparr> (BoolV False) None (0, []) =
     (Inr (ObjV 0), 1,
      [(''full_slate_q_agent.FullSlateQAgent'', [ObjV 0],
        [(''observation_space'', ObjV 1), (''action_space'', ObjV 2),
         (''summary_writer'', NoneV), (''eval_mode'', BoolV False)])])
   \<and> create_agent_in (import_bindings(''full_slate_q_agent'' \<mapsto> ModV ''other''))
       (recording counting_library) (ObjV 0)
       \<lparr>observation_space = ObjV 1, action_space = ObjV 2\<rparr> (BoolV False) None (0, []) =
     (Inr (ObjV 0), 1,
      [(''other.FullSlateQAgent'', [ObjV 0],
        [(''observation_space'', ObjV 1), (''action_space'', ObjV 2),
         (''summary_writer'', NoneV), (''eval_mode'', BoolV False)])])
   \<and> create_agent_in Map.empty (recording counting_library) (ObjV 0)
       \<lparr>observation_space = ObjV 1, action_space = ObjV 2\<rparr> (BoolV False) None (0, []) =
     (Inl (NameError ''full_slate_q_agent''), 0, [])"
  by (simp add: create_agent_in_def import_bindings_def call_attr_def recording_def
        counting_library_def create_agent_kwargs_items summary_writer_param_def)

text \<open>
  C7, amended. \<^verbatim>\<open>create_agent\<close> is an adapter without state of its own whose
  behaviour depends on its four parameters and on the value that the notebook binds
  \<^verbatim>\<open>full_slate_q_agent\<close> to, and on nothing else of the notebook's namespace: called
  with equal arguments in two namespaces that agree on that one variable, it behaves the
  same on every library. Where the variable is bound to a module, it adds, on any library
  that records its calls, from any state and after any history, exactly one call to the
  history: the call of that module's \<^verbatim>\<open>FullSlateQAgent\<close> with the session and the
  keyword bundle built from the parameters, whose result and effect it returns. Where the
  variable is unbound it raises \<^verbatim>\<open>NameError\<close> and leaves the library as it was. In
  every namespace it leaves the history of earlier calls as it was and adds at most one.
\<close>

theorem create_agent_depends_on_module_binding:
  assumes "g ''full_slate_q_agent'' = g' ''full_slate_q_agent''"
  shows "create_agent_in g lib sess environment eval_mode given =
         create_agent_in g' lib sess environment eval_mode given
       \<and> (g ''full_slate_q_agent'' = Some (ModV m) \<longrightarrow>
            create_agent_in g (recording lib) sess environment eval_mode given (w, calls) =
              (fst (lib (m @ ''.FullSlateQAgent'') [sess]
                      (create_agent_kwargs environment eval_mode (summary_writer_param given)) w),
               snd (lib (m @ ''.FullSlateQAgent'') [sess]
                      (create_agent_kwargs environment eval_mode (summary_writer_param given)) w),
               calls @ [(m @ ''.FullSlateQAgent'', [sess],
                         create_agent_kwargs environment eval_mode (summary_writer_param given))]))
       \<and> (g ''full_slate_q_agent'' = None \<longrightarrow>
            create_agent_in g lib sess environment eval_mode given w =
              (Inl (NameError ''full_slate_q_agent''), w))
       \<and> take (length calls)
            (snd (snd (create_agent_in g (recording lib) sess environment eval_mode given (w, calls))))
          = calls
       \<and> length
            (snd (snd (create_agent_in g (recording lib) sess environment eval_mode given (w, calls))))
          \<le> Suc (length calls)"
proof (intro conjI)
  show "create_agent_in g lib sess environment eval_mode given =
        create_agent_in g' lib sess environment eval_mode given"
    using assms by (intro ext) (simp add: create_agent_in_def)
qed (auto simp: create_agent_in_def call_attr_def recording_def Let_def
       split: option.splits pyval.splits prod.splits)

theorem create_agent_depends_on_module_binding_witness:
  "(import_bindings :: string \<Rightarrow> nat pyval option) ''full_slate_q_agent'' =
     (import_bindings(''np'' \<mapsto> IntV 3)) ''full_slate_q_agent''
   \<and> create_agent_in import_bindings counting_library (ObjV 0)
       \<lparr>observation_space = ObjV 1, action_space = ObjV 2\<rparr> (BoolV False) None =
     create_agent_in (import_bindings(''np'' \<mapsto> IntV 3)) counting_library (ObjV 0)
       \<lparr>observation_space = ObjV 1, action_space = ObjV 2\<rparr> (BoolV False) None
   \<and> create_agent_in import_bindings (recording counting_library) (ObjV 0)
       \<lparr>observation_space = ObjV 1, action_space = ObjV 2\<rparr> (BoolV False) None (0, []) =
     (Inr (ObjV 0), 1,
      [(''full_slate_q_agent.FullSlateQAgent'', [ObjV 0],
        [(''observation_space'', ObjV 1), (''action_space'', ObjV 2),
         (''summary_writer'', NoneV), (''eval_mode'', BoolV False)])])"
proof -
  have agree:
    "(import_bindings :: string \<Rightarrow> nat pyval option) ''full_slate_q_agent'' =
       (import_bindings(''np'' \<mapsto> IntV 3)) ''full_slate_q_agent''"
    by simp
  have bound:
    "(import_bindings :: string \<Rightarrow> nat pyval option) ''full_slate_q_agent'' =
       Some (ModV ''full_slate_q_agent'')"
    by (simp add: import_bindings_def)
  note at_import =
    create_agent_depends_on_module_binding
      [where g = "import_bindings :: string \<Rightarrow> nat pyval option"
         and g' = "import_bindings(''np'' \<mapsto> IntV 3)"
         and lib = counting_library and sess = "ObjV 0"
         and environment = "\<lparr>observation_space = ObjV 1, action_space = ObjV 2\<rparr>"
         and eval_mode = "BoolV False" and given = None
         and m = "''full_slate_q_agent''" and w = 0 and calls = "[]", OF agree]
  have same:
    "create_agent_in import_bindings counting_library (ObjV 0)
       \<lparr>observation_space = ObjV 1, action_space = ObjV 2\<rparr> (BoolV False) None =
     create_agent_in (import_bindings(''np'' \<mapsto> IntV 3)) counting_library (ObjV 0)
       \<lparr>observation_space = ObjV 1, action_space = ObjV 2\<rparr> (BoolV False) None"
    by (rule at_import [THEN conjunct1])
  have one_call:
    "create_agent_in import_bindings (recording counting_library) (ObjV 0)
       \<lparr>observation_space = ObjV 1, action_space = ObjV 2\<rparr> (BoolV False) None (0, []) =
     (Inr (ObjV 0), 1,
      [(''full_slate_q_agent.FullSlateQAgent'', [ObjV 0],
        [(''observation_space'', ObjV 1), (''action_space'', ObjV 2),
         (''summary_writer'', NoneV), (''eval_mode'', BoolV False)])])"
    using at_import [THEN conjunct2, THEN conjunct1, rule_format, OF bound]
    by (simp add: counting_library_def create_agent_kwargs_items summary_writer_param_def)
  show ?thesis
    by (rule conjI [OF agree conjI [OF same one_call]])
qed

text \<open>
  C9. \<^verbatim>\<open>create_agent\<close> reads nothing of its environment argument but the two
  attributes \<^verbatim>\<open>observation_space\<close> and \<^verbatim>\<open>action_space\<close>: on two environments that
  agree on both, it behaves the same for every library, session, flag and summary writer.
\<close>

theorem create_agent_reads_two_attributes:
  assumes "observation_space env1 = observation_space env2"
    and "action_space env1 = action_space env2"
  shows "create_agent lib sess env1 eval_mode given = create_agent lib sess env2 eval_mode given"
  using assms by (simp add: create_agent_unfold create_agent_kwargs_def)

theorem create_agent_reads_two_attributes_witness:
  "environment.more \<lparr>observation_space = ObjV 1, action_space = ObjV 2, \<dots> = True\<rparr>
     \<noteq> environment.more \<lparr>observation_space = ObjV 1, action_space = ObjV 2, \<dots> = False\<rparr>
   \<and> create_agent counting_library (ObjV 0)
         \<lparr>observation_space = ObjV 1, action_space = ObjV 2, \<dots> = True\<rparr> (BoolV False) None
     = create_agent counting_library (ObjV 0)
         \<lparr>observation_space = ObjV 1, action_space = ObjV 2, \<dots> = False\<rparr> (BoolV False) None"
  using create_agent_reads_two_attributes
          [of "\<lparr>observation_space = ObjV 1, action_space = ObjV 2, \<dots> = True\<rparr>"
              "\<lparr>observation_space = ObjV 1, action_space = ObjV 2, \<dots> = False\<rparr>"
              counting_library "ObjV 0" "BoolV False" None]
  by simp

section \<open>The notebook script: properties\<close>

text \<open>
  Every property of a run is proved by running the script step by step on an arbitrary
  library, with a case distinction on the outcome of each library call. The two sample
  runs below are used to instantiate the properties.
\<close>

lemmas run_steps = run_def notebook_steps symbex dict_of_items_def

lemma counting_run_completes: "fst (run counting_library Map.empty 0) = Inr ()"
  by (simp add: run_steps counting_library_def)

lemma counting_run_trace:
  "trace (snd (run counting_library Map.empty 0)) =
     [Bind ''create_agent'' (FunV ''create_agent''),
      Bind ''seed'' (IntV 0),
      Call ''np.random.seed'' [IntV 0] [] (Inr (ObjV 0)),
      Bind ''env_config'' (DictV [(''num_candidates'', IntV 10), (''slate_size'', IntV 2),
                  (''resample_documents'', BoolV True), (''seed'', IntV 0)]),
      Bind ''tmp_base_dir'' (StrV ''/tmp/recsim/''),
      Call ''interest_evolution.create_environment''
        [DictV [(''num_candidates'', IntV 10), (''slate_size'', IntV 2),
                  (''resample_documents'', BoolV True), (''seed'', IntV 0)]] [] (Inr (ObjV 1)),
      Call ''runner_lib.TrainRunner'' []
        [(''base_dir'', StrV ''/tmp/recsim/''), (''create_agent_fn'', FunV ''create_agent''),
         (''env'', ObjV 1), (''episode_log_file'', StrV []),
         (''max_training_steps'', IntV 50), (''num_iterations'', IntV 10)] (Inr (ObjV 2)),
      Bind ''runner'' (ObjV 2),
      Call ''run_experiment'' [ObjV 2] [] (Inr (ObjV 3)),
      Call ''interest_evolution.create_environment''
        [DictV [(''num_candidates'', IntV 10), (''slate_size'', IntV 2),
                  (''resample_documents'', BoolV True), (''seed'', IntV 0)]] [] (Inr (ObjV 4)),
      Call ''runner_lib.EvalRunner'' []
        [(''base_dir'', StrV ''/tmp/recsim/''), (''create_agent_fn'', FunV ''create_agent''),
         (''env'', ObjV 4), (''max_eval_episodes'', IntV 5), (''test_mode'', BoolV True)]
        (Inr (ObjV 5)),
      Bind ''runner'' (ObjV 5),
      Call ''run_experiment'' [ObjV 5] [] (Inr (ObjV 6))]"
  by (simp add: run_steps counting_library_def)

lemma failing_run_trace:
  "trace (snd (run (failing_library 2) Map.empty 0)) =
     [Bind ''create_agent'' (FunV ''create_agent''),
      Bind ''seed'' (IntV 0),
      Call ''np.random.seed'' [IntV 0] [] (Inr (ObjV 0)),
      Bind ''env_config'' (DictV [(''num_candidates'', IntV 10), (''slate_size'', IntV 2),
                  (''resample_documents'', BoolV True), (''seed'', IntV 0)]),
      Bind ''tmp_base_dir'' (StrV ''/tmp/recsim/''),
      Call ''interest_evolution.create_environment''
        [DictV [(''num_candidates'', IntV 10), (''slate_size'', IntV 2),
                  (''resample_documents'', BoolV True), (''seed'', IntV 0)]] [] (Inr (ObjV 1)),
      Call ''runner_lib.TrainRunner'' []
        [(''base_dir'', StrV ''/tmp/recsim/''), (''create_agent_fn'', FunV ''create_agent''),
         (''env'', ObjV 1), (''episode_log_file'', StrV []),
         (''max_training_steps'', IntV 50), (''num_iterations'', IntV 10)] (Inl (Extern 2))]"
  by (simp add: run_steps failing_library_def)

text \<open>
  C1. In every run, each call of \<^verbatim>\<open>interest_evolution.create_environment\<close> receives as
  its only argument the dictionary that \<^verbatim>\<open>env_config\<close> was bound to: the four keys with
  the values 10, 2, True and 0. The variable is bound at most once, so it is never changed
  between its construction and a factory call. A run that completes makes two such
  calls and leaves \<^verbatim>\<open>env_config\<close> bound to that dictionary.
\<close>

theorem env_config_passed_unchanged:
  assumes "run lib g w = (res, s)"
  shows "(\<forall>(args, kwargs, r) \<in> set (calls_to ''interest_evolution.create_environment'' (trace s)).
            args = [DictV [(''num_candidates'', IntV 10), (''slate_size'', IntV 2),
                  (''resample_documents'', BoolV True), (''seed'', IntV 0)]]
            \<and> kwargs = [])
       \<and> (\<forall>v \<in> set (binds_of ''env_config'' (trace s)).
            v = DictV [(''num_candidates'', IntV 10), (''slate_size'', IntV 2),
                  (''resample_documents'', BoolV True), (''seed'', IntV 0)])
       \<and> length (binds_of ''env_config'' (trace s)) \<le> 1
       \<and> (res = Inr () \<longrightarrow>
            length (calls_to ''interest_evolution.create_environment'' (trace s)) = 2
            \<and> globals s ''env_config'' =
                Some (DictV [(''num_candidates'', IntV 10), (''slate_size'', IntV 2),
                  (''resample_documents'', BoolV True), (''seed'', IntV 0)]))"
  using assms by (auto simp: run_steps split: prod.splits sum.splits)

theorem env_config_passed_unchanged_witness:
  "fst (run counting_library Map.empty 0) = Inr ()
   \<and> length (calls_to ''interest_evolution.create_environment''
        (trace (snd (run counting_library Map.empty 0)))) = 2
   \<and> globals (snd (run counting_library Map.empty 0)) ''env_config'' =
       Some (DictV [(''num_candidates'', IntV 10), (''slate_size'', IntV 2),
                  (''resample_documents'', BoolV True), (''seed'', IntV 0)])"
  using env_config_passed_unchanged [OF surjective_pairing, of counting_library Map.empty 0]
    counting_run_completes
  by simp

text \<open>
  C3. In every run, the training runner is constructed with exactly the keywords
  \<^verbatim>\<open>base_dir\<close>, \<^verbatim>\<open>create_agent_fn\<close>, \<^verbatim>\<open>env\<close>, \<^verbatim>\<open>episode_log_file\<close>,
  \<^verbatim>\<open>max_training_steps\<close>, \<^verbatim>\<open>num_iterations\<close> and no positional argument, and the
  evaluation runner with exactly \<^verbatim>\<open>base_dir\<close>, \<^verbatim>\<open>create_agent_fn\<close>, \<^verbatim>\<open>env\<close>,
  \<^verbatim>\<open>max_eval_episodes\<close>, \<^verbatim>\<open>test_mode\<close>; the values of the keywords other than
  \<^verbatim>\<open>env\<close> are those of the script. \<^verbatim>\<open>run_experiment\<close> is called on one object and
  without keywords. In a run that completes, each runner is constructed once, and
  \<^verbatim>\<open>run_experiment\<close> is called on the constructed training runner and then on the
  constructed evaluation runner.
\<close>

theorem runners_constructed_and_run:
  assumes "run lib g w = (res, s)"
  shows "(\<forall>(args, kwargs, r) \<in> set (calls_to ''runner_lib.TrainRunner'' (trace s)).
            args = [] \<and>
            map fst kwargs =
              [''base_dir'', ''create_agent_fn'', ''env'', ''episode_log_file'',
               ''max_training_steps'', ''num_iterations''] \<and>
            map_of kwargs ''base_dir'' = Some (StrV ''/tmp/recsim/'') \<and>
            map_of kwargs ''create_agent_fn'' = Some (FunV ''create_agent'') \<and>
            map_of kwargs ''episode_log_file'' = Some (StrV []) \<and>
            map_of kwargs ''max_training_steps'' = Some (IntV 50) \<and>
            map_of kwargs ''num_iterations'' = Some (IntV 10))
       \<and> (\<forall>(args, kwargs, r) \<in> set (calls_to ''runner_lib.EvalRunner'' (trace s)).
            args = [] \<and>
            map fst kwargs =
              [''base_dir'', ''create_agent_fn'', ''env'', ''max_eval_episodes'', ''test_mode''] \<and>
            map_of kwargs ''base_dir'' = Some (StrV ''/tmp/recsim/'') \<and>
            map_of kwargs ''create_agent_fn'' = Some (FunV ''create_agent'') \<and>
            map_of kwargs ''max_eval_episodes'' = Some (IntV 5) \<and>
            map_of kwargs ''test_mode'' = Some (BoolV True))
       \<and> (\<forall>(args, kwargs, r) \<in> set (calls_to ''run_experiment'' (trace s)).
            length args = 1 \<and> kwargs = [])
       \<and> (res = Inr () \<longrightarrow>
            length (calls_to ''runner_lib.TrainRunner'' (trace s)) = 1 \<and>
            length (calls_to ''runner_lib.EvalRunner'' (trace s)) = 1 \<and>
            map (\<lambda>(args, kwargs, r). Inr (hd args)) (calls_to ''run_experiment'' (trace s)) =
              map (\<lambda>(args, kwargs, r). r)
                (calls_to ''runner_lib.TrainRunner'' (trace s) @
                 calls_to ''runner_lib.EvalRunner'' (trace s)))"
  using assms by (auto simp: run_steps split: prod.splits sum.splits)

theorem runners_constructed_and_run_witness:
  "fst (run counting_library Map.empty 0) = Inr ()
   \<and> map (\<lambda>(args, kwargs, r). r)
       (calls_to ''runner_lib.TrainRunner'' (trace (snd (run counting_library Map.empty 0))) @
        calls_to ''runner_lib.EvalRunner'' (trace (snd (run counting_library Map.empty 0)))) =
     [Inr (ObjV 2), Inr (ObjV 5)]
   \<and> map (\<lambda>(args, kwargs, r). Inr (hd args))
       (calls_to ''run_experiment'' (trace (snd (run counting_library Map.empty 0)))) =
     [Inr (ObjV 2), Inr (ObjV 5) :: nat exc + nat pyval]"
proof -
  have "map (\<lambda>(args, kwargs, r). r)
       (calls_to ''runner_lib.TrainRunner'' (trace (snd (run counting_library Map.empty 0))) @
        calls_to ''runner_lib.EvalRunner'' (trace (snd (run counting_library Map.empty 0)))) =
     [Inr (ObjV 2), Inr (ObjV 5)]"
    by (simp add: counting_run_trace)
  with runners_constructed_and_run [OF surjective_pairing, of counting_library Map.empty 0]
    counting_run_completes
  show ?thesis by simp
qed

text \<open>
  C4. Whenever the script binds \<^verbatim>\<open>env_config\<close>, the value is a dictionary whose keys
  are exactly \<^verbatim>\<open>num_candidates\<close>, \<^verbatim>\<open>slate_size\<close>, \<^verbatim>\<open>resample_documents\<close> and
  \<^verbatim>\<open>seed\<close>, bound to 10, 2, True and 0, each of them a scalar: the mapping is flat.
  A run that completes has bound it once.
\<close>

theorem env_config_flat_mapping:
  assumes "run lib g w = (res, s)"
  shows "(\<forall>v \<in> set (binds_of ''env_config'' (trace s)).
            case v of
              DictV items \<Rightarrow>
                map fst items = [''num_candidates'', ''slate_size'', ''resample_documents'', ''seed'']
                \<and> map snd items = [IntV 10, IntV 2, BoolV True, IntV 0]
                \<and> list_all scalar (map snd items)
            | _ \<Rightarrow> False)
       \<and> (res = Inr () \<longrightarrow> length (binds_of ''env_config'' (trace s)) = 1)"
  using assms by (auto simp: run_steps split: prod.splits sum.splits)

theorem env_config_flat_mapping_witness:
  "fst (run counting_library Map.empty 0) = Inr ()
   \<and> length (binds_of ''env_config'' (trace (snd (run counting_library Map.empty 0)))) = 1"
  using env_config_flat_mapping [OF surjective_pairing, of counting_library Map.empty 0]
    counting_run_completes
  by simp

text \<open>
  C5. The steps of every run occur in one fixed order, of which a run that raises
  performs an initial part and a run that completes performs all: \<^verbatim>\<open>env_config\<close> is
  bound, then the environment factory is called, then the training runner is constructed,
  then bound to \<^verbatim>\<open>runner\<close>, and only then \<^verbatim>\<open>run_experiment\<close> is called; the same
  holds for the evaluation phase, whose factory call and runner construction come after
  the training phase's \<^verbatim>\<open>run_experiment\<close> has returned. (An event is recorded when the
  call returns or raises.)
\<close>

theorem steps_in_order:
  assumes "run lib g w = (res, s)"
  shows "prefix (map label_of (trace s))
         [Binds ''create_agent'', Binds ''seed'', Calls ''np.random.seed'',
          Binds ''env_config'', Binds ''tmp_base_dir'',
          Calls ''interest_evolution.create_environment'', Calls ''runner_lib.TrainRunner'',
          Binds ''runner'', Calls ''run_experiment'',
          Calls ''interest_evolution.create_environment'', Calls ''runner_lib.EvalRunner'',
          Binds ''runner'', Calls ''run_experiment'']
       \<and> (res = Inr () \<longrightarrow>
            map label_of (trace s) =
         [Binds ''create_agent'', Binds ''seed'', Calls ''np.random.seed'',
          Binds ''env_config'', Binds ''tmp_base_dir'',
          Calls ''interest_evolution.create_environment'', Calls ''runner_lib.TrainRunner'',
          Binds ''runner'', Calls ''run_experiment'',
          Calls ''interest_evolution.create_environment'', Calls ''runner_lib.EvalRunner'',
          Binds ''runner'', Calls ''run_experiment''])"
  using assms by (auto simp: run_steps split: prod.splits sum.splits)

theorem steps_in_order_witness:
  "fst (run counting_library Map.empty 0) = Inr ()
   \<and> map label_of (trace (snd (run counting_library Map.empty 0))) =
         [Binds ''create_agent'', Binds ''seed'', Calls ''np.random.seed'',
          Binds ''env_config'', Binds ''tmp_base_dir'',
          Calls ''interest_evolution.create_environment'', Calls ''runner_lib.TrainRunner'',
          Binds ''runner'', Calls ''run_experiment'',
          Calls ''interest_evolution.create_environment'', Calls ''runner_lib.EvalRunner'',
          Binds ''runner'', Calls ''run_experiment'']"
  using steps_in_order [OF surjective_pairing, of counting_library Map.empty 0]
    counting_run_completes
  by simp

text \<open>
  C6. Neither the script nor \<^verbatim>\<open>create_agent\<close> catches, changes or suppresses an
  exception. In every run, no step but the last one recorded is a call that raised; the
  run ends with an exception exactly when its last step is a call that raised, and then
  with that very exception; nothing is done after it. A run whose library calls all
  return completes, so the script raises nothing of its own. When the agent constructor
  raises, \<^verbatim>\<open>create_agent\<close> raises the same exception and leaves the library in the
  state the constructor left it in.
\<close>

theorem exceptions_propagate:
  assumes "run lib g w = (res, s)"
  shows "trace s \<noteq> []
       \<and> (\<forall>ev \<in> set (butlast (trace s)). raised ev = None)
       \<and> res = (case raised (last (trace s)) of Some e \<Rightarrow> Inl e | None \<Rightarrow> Inr ())
       \<and> (lib ''full_slate_q_agent.FullSlateQAgent'' [sess]
             (create_agent_kwargs environment eval_mode (summary_writer_param given)) w0 = (Inl e0, w1)
            \<longrightarrow> create_agent lib sess environment eval_mode given w0 = (Inl e0, w1))"
  using assms by (auto simp: run_steps create_agent_unfold split: prod.splits sum.splits)

theorem exceptions_propagate_witness:
  "raised (last (trace (snd (run (failing_library 2) Map.empty 0)))) = Some (Extern 2)
   \<and> fst (run (failing_library 2) Map.empty 0) = Inl (Extern 2)
   \<and> failing_library 2 ''full_slate_q_agent.FullSlateQAgent'' [ObjV 0]
       (create_agent_kwargs \<lparr>observation_space = ObjV 1, action_space = ObjV 1\<rparr> (BoolV True)
          (summary_writer_param None)) 2 = (Inl (Extern 2), 3)
   \<and> create_agent (failing_library 2) (ObjV 0)
       \<lparr>observation_space = ObjV 1, action_space = ObjV 1\<rparr> (BoolV True) None 2 =
     (Inl (Extern 2), 3)"
proof -
  have last_raised:
    "raised (last (trace (snd (run (failing_library 2) Map.empty 0)))) = Some (Extern 2)"
    by (simp add: failing_run_trace)
  have constructor_raises:
    "failing_library 2 ''full_slate_q_agent.FullSlateQAgent'' [ObjV 0]
       (create_agent_kwargs \<lparr>observation_space = ObjV 1, action_space = ObjV 1\<rparr> (BoolV True)
          (summary_writer_param None)) 2 = (Inl (Extern 2), 3)"
    by (simp add: failing_library_def)
  from exceptions_propagate
         [OF surjective_pairing,
          of "failing_library 2" Map.empty 0 "ObjV 0"
             "\<lparr>observation_space = ObjV 1, action_space = ObjV 1\<rparr>" "BoolV True" None 2
             "Extern 2" 3]
    last_raised constructor_raises
  show ?thesis by simp
qed







end
